theory Spec2Isabelle
  imports Complex_Main
begin

section \<open>The relative date formatter of examples/view-plugins/date-relative.py\<close>

text \<open>
  The script reads one JSON document from standard input, picks a date field, and prints a
  relative label for it. This theory embeds its two functions, \<open>format_relative_date\<close>
  and \<open>main\<close>, together with the part of Python's semantics they rest on: truthiness,
  the \<open>or\<close> operator, \<open>str.replace\<close>, the subtraction of datetimes, the
  \<open>days\<close> attribute of a timedelta, \<open>print\<close>, and exceptions as values.

  What the script takes from the standard library and from its surroundings is a parameter:
  \<^item> \<open>datetime.fromisoformat\<close>, \<open>json.loads\<close>, the \<open>repr\<close> of floats and
    containers, and the encoder of \<open>sys.stdout\<close> are the fields of a record \<open>pylib\<close>;
  \<^item> the clock and the contents of standard input are the fields of a record \<open>world\<close>.
\<close>

subsection \<open>Python values and exceptions\<close>

text \<open>
  A float is kept as mantissa and binary exponent (the value \<open>m * 2 ^ e\<close>), an infinity
  with its sign, or a NaN; only its truth value is computed here.
\<close>

datatype pyfloat = Finite int int | Infinity bool | NaN

text \<open>
  The values \<open>json.load\<close> returns. A dict is the association list of its items;
  \<open>map_of\<close> is the lookup.

  A str is kept as the bytes of its UTF-8 form, and a lone surrogate, which has no UTF-8
  form, as the three bytes of the same scheme (U+D800 is ED A0 80). The script tests a str
  for emptiness, replaces the ASCII character \<open>Z\<close> and joins a str with ASCII text; each
  of these acts on the bytes as it acts on the characters.
\<close>

datatype pyval =
    PNone
  | PBool bool
  | PInt int
  | PFloat pyfloat
  | PStr string
  | PList "pyval list"
  | PDict "(string \<times> pyval) list"

text \<open>Exceptions, each with the text \<open>str(e)\<close> gives. All are subclasses of \<open>Exception\<close>.\<close>

datatype pyexn =
    ValueError string
  | TypeError string
  | AttributeError string
  | OtherException string

fun exn_msg :: "pyexn \<Rightarrow> string" where
  "exn_msg (ValueError m) = m"
| "exn_msg (TypeError m) = m"
| "exn_msg (AttributeError m) = m"
| "exn_msg (OtherException m) = m"

text \<open>Truth value testing, as \<open>not x\<close> and \<open>x or y\<close> use it.\<close>

fun truthy :: "pyval \<Rightarrow> bool" where
  "truthy PNone = False"
| "truthy (PBool b) = b"
| "truthy (PInt i) = (i \<noteq> 0)"
| "truthy (PFloat f) = (case f of Finite m e \<Rightarrow> m \<noteq> 0 | Infinity s \<Rightarrow> True | NaN \<Rightarrow> True)"
| "truthy (PStr s) = (s \<noteq> [])"
| "truthy (PList xs) = (xs \<noteq> [])"
| "truthy (PDict kvs) = (kvs \<noteq> [])"

fun type_name :: "pyval \<Rightarrow> string" where
  "type_name PNone = ''NoneType''"
| "type_name (PBool b) = ''bool''"
| "type_name (PInt i) = ''int''"
| "type_name (PFloat f) = ''float''"
| "type_name (PStr s) = ''str''"
| "type_name (PList xs) = ''list''"
| "type_name (PDict kvs) = ''dict''"

definition quote :: char where
  "quote = CHR 0x27"

definition newline :: char where
  "newline = CHR 0x0A"

text \<open>The message of the AttributeError raised by \<open>v.name\<close> when \<open>v\<close> has no such attribute.\<close>

definition no_attribute :: "pyval \<Rightarrow> string \<Rightarrow> pyexn" where
  "no_attribute v name =
     AttributeError ([quote] @ type_name v @ [quote] @ '' object has no attribute ''
                     @ [quote] @ name @ [quote])"

subsection \<open>Decimal text of an integer\<close>

fun str_nat :: "nat \<Rightarrow> string" where
  "str_nat n = (if n < 10 then [''0123456789'' ! n]
                else str_nat (n div 10) @ [''0123456789'' ! (n mod 10)])"

declare str_nat.simps [simp del]

definition str_int :: "int \<Rightarrow> string" where
  "str_int i = (if i < 0 then CHR ''-'' # str_nat (nat (- i)) else str_nat (nat i))"

subsection \<open>Datetimes\<close>

text \<open>
  A datetime is its wall-clock reading, in microseconds since 0001-01-01T00:00:00, and the
  UTC offset of its tzinfo in microseconds; a naive datetime has no offset. A timedelta is a
  number of microseconds.
\<close>

record datetime =
  wall :: int
  utcoffset :: "int option"

type_synonym timedelta = int

text \<open>
  \<open>datetime.__sub__\<close> on two datetimes: the difference of the readings, corrected by the
  offsets when both have one; mixing a naive and an aware datetime raises TypeError.
\<close>

definition dt_sub :: "datetime \<Rightarrow> datetime \<Rightarrow> pyexn + timedelta" where
  "dt_sub a b =
     (let base = wall a - wall b in
      if utcoffset a = utcoffset b then Inr base
      else case (utcoffset a, utcoffset b) of
             (Some myoff, Some otoff) \<Rightarrow> Inr (base + otoff - myoff)
           | _ \<Rightarrow> Inl (TypeError ''can't subtract offset-naive and offset-aware datetimes''))"

text \<open>
  \<open>timedelta.days\<close>: a timedelta is normalised with \<open>divmod\<close>, so that its seconds and
  microseconds are never negative and its days are the quotient rounded down. The difference
  of two datetimes, both between the years 1 and 9999, always fits a timedelta.
\<close>

definition td_days :: "timedelta \<Rightarrow> int" where
  "td_days delta = delta div 86400000000"

subsection \<open>The library and the surroundings\<close>

text \<open>
  \<open>stdout_error\<close> is the exception, if any, that \<open>sys.stdout.write\<close> raises for a text:
  the UnicodeEncodeError (a ValueError) of the stream's encoder for a text with a character
  it cannot encode.
\<close>

record pylib =
  fromisoformat :: "string \<Rightarrow> pyexn + datetime"
  json_loads :: "string \<Rightarrow> pyexn + pyval"
  py_repr :: "pyval \<Rightarrow> string"
  stdout_error :: "string \<Rightarrow> pyexn option"

text \<open>
  \<open>clock\<close> is the current instant in microseconds since 0001-01-01T00:00:00 UTC;
  \<open>stdin\<close> is what reading standard input to its end gives, an exception or the text.
\<close>

record world =
  clock :: int
  stdin :: "pyexn + string"

text \<open>\<open>datetime.now(timezone.utc)\<close>: the clock's reading, aware, at offset zero.\<close>

definition now_utc :: "world \<Rightarrow> datetime" where
  "now_utc w = \<lparr>wall = clock w, utcoffset = Some 0\<rparr>"

subsection \<open>format_relative_date\<close>

text \<open>\<open>s.replace('Z', '+00:00')\<close>: every \<open>Z\<close> of the string is replaced.\<close>

definition replace_Z :: "string \<Rightarrow> string" where
  "replace_Z s = concat (map (\<lambda>c. if c = CHR ''Z'' then ''+00:00'' else [c]) s)"

text \<open>
  Lines 16 to 21: the parsed date, the current instant, their difference and its days.
  Only a str has the method \<open>replace\<close>.
\<close>

definition day_difference :: "pylib \<Rightarrow> world \<Rightarrow> pyval \<Rightarrow> pyexn + int" where
  "day_difference lib w date_str =
     (case date_str of
        PStr s \<Rightarrow>
          (case fromisoformat lib (replace_Z s) of
             Inl e \<Rightarrow> Inl e
           | Inr date \<Rightarrow>
               (let now = now_utc w in
                case dt_sub date now of
                  Inl e \<Rightarrow> Inl e
                | Inr delta \<Rightarrow> Inr (td_days delta)))
      | _ \<Rightarrow> Inl (no_attribute date_str ''replace''))"

text \<open>The body of the \<open>try\<close> block, lines 15 to 32.\<close>

definition try_format :: "pylib \<Rightarrow> world \<Rightarrow> pyval \<Rightarrow> pyexn + pyval" where
  "try_format lib w date_str =
     (case day_difference lib w date_str of
        Inl e \<Rightarrow> Inl e
      | Inr days \<Rightarrow>
          Inr (PStr
            (if days = 0 then ''Today''
             else if days = 1 then ''Tomorrow''
             else if days = - 1 then ''Yesterday''
             else if days > 0 then ''in '' @ str_int days @ '' days''
             else str_int \<bar>days\<bar> @ '' days ago'')))"

text \<open>The function: the guard of lines 11 and 12, and the handler of lines 33 and 34.\<close>

definition format_relative_date :: "pylib \<Rightarrow> world \<Rightarrow> pyval \<Rightarrow> pyval" where
  "format_relative_date lib w date_str =
     (if \<not> truthy date_str then PStr ''''
      else case try_format lib w date_str of
             Inr label \<Rightarrow> label
           | Inl e \<Rightarrow> date_str)"

subsection \<open>main\<close>

text \<open>\<open>json.load(fp)\<close> is \<open>json.loads(fp.read())\<close>.\<close>

definition json_load :: "pylib \<Rightarrow> pyexn + string \<Rightarrow> pyexn + pyval" where
  "json_load lib fp = (case fp of Inl e \<Rightarrow> Inl e | Inr text \<Rightarrow> json_loads lib text)"

text \<open>\<open>d.get(k)\<close> on a dict: the value, or None when the key is missing.\<close>

definition dict_get :: "(string \<times> pyval) list \<Rightarrow> string \<Rightarrow> pyval" where
  "dict_get kvs k = (case map_of kvs k of None \<Rightarrow> PNone | Some v \<Rightarrow> v)"

text \<open>\<open>data.get(k)\<close>: only a dict has the method \<open>get\<close>.\<close>

definition py_get :: "pyval \<Rightarrow> string \<Rightarrow> pyexn + pyval" where
  "py_get data k =
     (case data of
        PDict kvs \<Rightarrow> Inr (dict_get kvs k)
      | _ \<Rightarrow> Inl (no_attribute data ''get''))"

text \<open>
  Line 42: \<open>data.get('due_date') or data.get('start_date') or data.get('created')\<close>.
  \<open>x or y\<close> is \<open>x\<close> when \<open>x\<close> is true, and \<open>y\<close> otherwise, which is then the only
  operand evaluated after \<open>x\<close>.
\<close>

definition select_date :: "pyval \<Rightarrow> pyexn + pyval" where
  "select_date data =
     (case py_get data ''due_date'' of
        Inl e \<Rightarrow> Inl e
      | Inr a \<Rightarrow>
          if truthy a then Inr a
          else (case py_get data ''start_date'' of
                  Inl e \<Rightarrow> Inl e
                | Inr b \<Rightarrow> if truthy b then Inr b else py_get data ''created''))"

text \<open>\<open>str(v)\<close>, as \<open>print\<close> applies it.\<close>

definition py_str :: "pylib \<Rightarrow> pyval \<Rightarrow> string" where
  "py_str lib v =
     (case v of
        PStr s \<Rightarrow> s
      | PNone \<Rightarrow> ''None''
      | PBool b \<Rightarrow> (if b then ''True'' else ''False'')
      | PInt i \<Rightarrow> str_int i
      | _ \<Rightarrow> py_repr lib v)"

text \<open>
  Writing a text to standard output: the whole text is encoded before any of it is written,
  so a text the encoder rejects raises and leaves the stream as it was. The empty text
  always encodes.
\<close>

definition write_error :: "pylib \<Rightarrow> string \<Rightarrow> pyexn option" where
  "write_error lib text = (if text = [] then None else stdout_error lib text)"

text \<open>
  \<open>print(v)\<close>, line 46: \<open>str(v)\<close> is written, then the line end. The result is the
  exception raised, or the text that reached standard output.
\<close>

definition print_out :: "pylib \<Rightarrow> pyval \<Rightarrow> pyexn + string" where
  "print_out lib v =
     (let text = py_str lib v in
      case write_error lib text of
        Some e \<Rightarrow> Inl e
      | None \<Rightarrow> Inr (text @ [newline]))"

text \<open>
  The body of the \<open>try\<close> block of \<open>main\<close>, lines 39 to 46: the exception that leaves
  it, or the text printed.
\<close>

definition try_main :: "pylib \<Rightarrow> world \<Rightarrow> pyexn + string" where
  "try_main lib w =
     (case json_load lib (stdin w) of
        Inl e \<Rightarrow> Inl e
      | Inr data \<Rightarrow>
          (case select_date data of
             Inl e \<Rightarrow> Inl e
           | Inr date_str \<Rightarrow>
               (let result = format_relative_date lib w date_str
                in print_out lib result)))"

text \<open>
  What a run leaves behind: the two output streams and the exit status. The handler of lines
  47 to 49 writes to the error stream, whose encoder escapes what it cannot encode and so
  never raises.
\<close>

record outcome =
  out :: string
  err :: string
  status :: nat

definition main :: "pylib \<Rightarrow> world \<Rightarrow> outcome" where
  "main lib w =
     (case try_main lib w of
        Inr text \<Rightarrow> \<lparr>out = text, err = '''', status = 0\<rparr>
      | Inl e \<Rightarrow> \<lparr>out = '''', err = ''Error: '' @ exn_msg e @ [newline], status = 1\<rparr>)"

subsection \<open>Sample inputs\<close>

text \<open>
  The concrete inputs of the examples below. \<open>sample_fromisoformat\<close> and
  \<open>sample_json_loads\<close> hold the answers of \<open>datetime.fromisoformat\<close> and
  \<open>json.loads\<close> on the strings the examples use: the wall-clock reading of
  2025-10-14T00:00:00 is 739537 days after 0001-01-01, that is 63895996800000000
  microseconds. They are tables of these entries only: on any other string they answer with
  an error, as the library does for \<open>not-a-date\<close> and for the empty text.
  \<open>sample_stdout_error\<close> holds the answers of a UTF-8 standard output with the default
  error handler on the texts the examples print: it rejects the two with a lone surrogate.
\<close>

definition backslash :: char where
  "backslash = CHR 0x5C"

definition lone_surrogate :: string where
  "lone_surrogate = [CHR 0xED, CHR 0xA0, CHR 0x80]"

definition surrogate_time :: string where
  "surrogate_time = ''2025-10-14'' @ lone_surrogate @ ''09:00:00''"

definition surrogate_error :: "string \<Rightarrow> pyexn" where
  "surrogate_error position =
     ValueError ([quote] @ ''utf-8'' @ [quote] @ '' codec can't encode character ''
                 @ [quote] @ [backslash] @ ''ud800'' @ [quote]
                 @ '' in position '' @ position @ '': surrogates not allowed'')"

definition sample_stdout_error :: "string \<Rightarrow> pyexn option" where
  "sample_stdout_error text =
     (if text = lone_surrogate then Some (surrogate_error ''0'')
      else if text = surrogate_time then Some (surrogate_error ''10'')
      else None)"

definition sample_fromisoformat :: "string \<Rightarrow> pyexn + datetime" where
  "sample_fromisoformat s =
     (if s = surrogate_time
        then Inr \<lparr>wall = 63896029200000000, utcoffset = None\<rparr>
      else if s = lone_surrogate
        then Inl (ValueError (''Invalid isoformat string: '' @ [quote] @ [backslash]
                              @ ''ud800'' @ [quote]))
      else if s = ''2025-10-14T00:00:00+00:00''
        then Inr \<lparr>wall = 63895996800000000, utcoffset = Some 0\<rparr>
      else if s = ''2025-10-15T02:00:00+02:00''
        then Inr \<lparr>wall = 63896090400000000, utcoffset = Some 7200000000\<rparr>
      else if s = ''2025-10-19T09:00:00+00:00''
        then Inr \<lparr>wall = 63896461200000000, utcoffset = Some 0\<rparr>
      else if s = ''2025-10-09T00:00:00+00:00''
        then Inr \<lparr>wall = 63895564800000000, utcoffset = Some 0\<rparr>
      else if s = ''2025-10-14T09:00:00''
        then Inr \<lparr>wall = 63896029200000000, utcoffset = None\<rparr>
      else Inl (ValueError (''Invalid isoformat string: '' @ [quote] @ s @ [quote])))"

definition text_due :: string where
  \<open>text_due = ''{"due_date": "2025-10-14T00:00:00Z"}''\<close>

definition text_both :: string where
  \<open>text_both =
     ''{"start_date": "2025-10-09T00:00:00Z", "due_date": "2025-10-15T02:00:00+02:00"}''\<close>

definition text_far :: string where
  \<open>text_far = ''{"created": "2025-10-19T09:00:00Z"}''\<close>

definition text_bad_date :: string where
  \<open>text_bad_date = ''{"due_date": "not-a-date"}''\<close>

definition text_naive :: string where
  \<open>text_naive = ''{"created": "2025-10-14T09:00:00", "due_date": null}''\<close>

definition text_no_date :: string where
  \<open>text_no_date = ''{"summary": "water the plants", "due_date": "", "start_date": null}''\<close>

definition text_array :: string where
  \<open>text_array = ''["2025-10-14T00:00:00Z"]''\<close>

definition text_truncated :: string where
  \<open>text_truncated = ''{"due_date": ''\<close>

definition text_start_only :: string where
  \<open>text_start_only = ''{"due_date": "", "start_date": "2025-10-09T00:00:00Z"}''\<close>

definition text_surrogate :: string where
  \<open>text_surrogate = ''{"due_date": "'' @ [backslash] @ ''ud800"}''\<close>

definition text_surrogate_time :: string where
  \<open>text_surrogate_time =
     ''{"due_date": "2025-10-14'' @ [backslash] @ ''ud80009:00:00"}''\<close>

definition sample_json_loads :: "string \<Rightarrow> pyexn + pyval" where
  "sample_json_loads t =
     (if t = text_due
        then Inr (PDict [(''due_date'', PStr ''2025-10-14T00:00:00Z'')])
      else if t = text_both
        then Inr (PDict [(''start_date'', PStr ''2025-10-09T00:00:00Z''),
                         (''due_date'', PStr ''2025-10-15T02:00:00+02:00'')])
      else if t = text_far
        then Inr (PDict [(''created'', PStr ''2025-10-19T09:00:00Z'')])
      else if t = text_bad_date
        then Inr (PDict [(''due_date'', PStr ''not-a-date'')])
      else if t = text_naive
        then Inr (PDict [(''created'', PStr ''2025-10-14T09:00:00''), (''due_date'', PNone)])
      else if t = text_no_date
        then Inr (PDict [(''summary'', PStr ''water the plants''), (''due_date'', PStr ''''),
                         (''start_date'', PNone)])
      else if t = text_array
        then Inr (PList [PStr ''2025-10-14T00:00:00Z''])
      else if t = text_start_only
        then Inr (PDict [(''due_date'', PStr ''''),
                         (''start_date'', PStr ''2025-10-09T00:00:00Z'')])
      else if t = text_surrogate
        then Inr (PDict [(''due_date'', PStr lone_surrogate)])
      else if t = text_surrogate_time
        then Inr (PDict [(''due_date'', PStr surrogate_time)])
      else if t = text_truncated
        then Inl (ValueError ''Expecting value: line 1 column 14 (char 13)'')
      else Inl (ValueError ''Expecting value: line 1 column 1 (char 0)''))"

definition sample_lib :: pylib where
  "sample_lib =
     \<lparr>fromisoformat = sample_fromisoformat, json_loads = sample_json_loads,
      py_repr = (\<lambda>v. ''?''), stdout_error = sample_stdout_error\<rparr>"

text \<open>Noon of 2025-10-14 in UTC, and a run at that instant on a given input text.\<close>

definition noon :: int where
  "noon = 63896040000000000"

definition at_noon :: "string \<Rightarrow> world" where
  "at_noon t = \<lparr>clock = noon, stdin = Inr t\<rparr>"

section \<open>Properties\<close>

subsection \<open>Shared facts\<close>

lemmas sample_defs = sample_lib_def sample_fromisoformat_def sample_json_loads_def
  text_due_def text_both_def text_far_def text_bad_date_def text_naive_def text_no_date_def
  text_array_def text_truncated_def noon_def at_noon_def text_start_only_def
  text_surrogate_def text_surrogate_time_def lone_surrogate_def surrogate_time_def
  sample_stdout_error_def

lemma day_difference_aware:
  assumes "fromisoformat lib (replace_Z s) = Inr date" and "utcoffset date = Some off"
  shows "day_difference lib w (PStr s) = Inr ((wall date - off - clock w) div 86400000000)"
  using assms
  by (auto simp: day_difference_def dt_sub_def now_utc_def td_days_def Let_def algebra_simps)

lemma day_difference_naive:
  assumes "fromisoformat lib (replace_Z s) = Inr date" and "utcoffset date = None"
  shows "isl (day_difference lib w (PStr s))"
  using assms by (simp add: day_difference_def dt_sub_def now_utc_def Let_def)

lemma day_difference_unparsed:
  assumes "fromisoformat lib (replace_Z s) = Inl e"
  shows "day_difference lib w (PStr s) = Inl e"
  using assms by (simp add: day_difference_def)

lemma format_label:
  assumes "day_difference lib w v = Inr d" and "truthy v"
  shows "format_relative_date lib w v =
           PStr (if d = 0 then ''Today''
                 else if d = 1 then ''Tomorrow''
                 else if d = - 1 then ''Yesterday''
                 else if d > 0 then ''in '' @ str_int d @ '' days''
                 else str_int \<bar>d\<bar> @ '' days ago'')"
  using assms by (simp add: format_relative_date_def try_format_def)

lemma format_fallback:
  assumes "isl (day_difference lib w (PStr s))"
  shows "format_relative_date lib w (PStr s) = PStr s"
  using assms
  by (cases "day_difference lib w (PStr s)")
     (auto simp: format_relative_date_def try_format_def)

lemma main_prints:
  assumes "stdin w = Inr text" and "json_loads lib text = Inr data"
    and "select_date data = Inr v"
  shows "main lib w =
           (case print_out lib (format_relative_date lib w v) of
              Inr printed \<Rightarrow> \<lparr>out = printed, err = '''', status = 0\<rparr>
            | Inl e \<Rightarrow> \<lparr>out = '''', err = ''Error: '' @ exn_msg e @ [newline], status = 1\<rparr>)"
  using assms by (simp add: main_def try_main_def json_load_def)

lemma print_out_str:
  "print_out lib (PStr s) =
     (case write_error lib s of Some e \<Rightarrow> Inl e | None \<Rightarrow> Inr (s @ [newline]))"
  by (simp add: print_out_def py_str_def)

lemma main_fails:
  assumes "try_main lib w = Inl e"
  shows "main lib w = \<lparr>out = '''', err = ''Error: '' @ exn_msg e @ [newline], status = 1\<rparr>"
  using assms by (simp add: main_def)

lemma select_date_dict:
  "select_date (PDict kvs) =
     Inr (if truthy (dict_get kvs ''due_date'') then dict_get kvs ''due_date''
          else if truthy (dict_get kvs ''start_date'') then dict_get kvs ''start_date''
          else dict_get kvs ''created'')"
  by (simp add: select_date_def py_get_def)

lemma str_int_5: "str_int 5 = ''5''"
  by (simp add: str_int_def str_nat.simps)

subsection \<open>A date at the start of the current day\<close>

text \<open>
  C1. The date is the start (00:00:00Z) of the clock's current UTC day. The label is
  \<open>Today\<close> when the clock stands exactly at that start; at any later instant of the
  same day the difference is negative, its days, rounded down, are \<open>-1\<close>, and the label
  is \<open>Yesterday\<close>.
\<close>

theorem due_midnight_of_today:
  assumes "fromisoformat lib (replace_Z s) = Inr date"
    and "utcoffset date = Some 0"
    and "wall date = clock w div 86400000000 * 86400000000"
    and "s \<noteq> []"
  shows "format_relative_date lib w (PStr s) =
           PStr (if clock w mod 86400000000 = 0 then ''Today'' else ''Yesterday'')"
proof -
  let ?D = "86400000000 :: int"
  have delta: "wall date - 0 - clock w = - (clock w mod ?D)"
    using assms(3) by (simp add: minus_mod_eq_div_mult [symmetric])
  have range: "0 \<le> clock w mod ?D" "clock w mod ?D < ?D"
    by simp_all
  have days: "(wall date - 0 - clock w) div ?D = (if clock w mod ?D = 0 then 0 else - 1)"
  proof (cases "clock w mod ?D = 0")
    case True
    then show ?thesis using delta by simp
  next
    case False
    then have "- ?D \<le> - (clock w mod ?D)" "- (clock w mod ?D) < 0"
      using range by linarith+
    then have "(- (clock w mod ?D)) div ?D = - 1"
      by (intro int_div_pos_eq [where r = "?D - clock w mod ?D"]) simp_all
    then show ?thesis using delta False by simp
  qed
  have "truthy (PStr s)" using assms(4) by simp
  from format_label [OF day_difference_aware [OF assms(1,2)] this] days
  show ?thesis by simp
qed

theorem due_midnight_of_today_witness:
  "fromisoformat sample_lib (replace_Z ''2025-10-14T00:00:00Z'')
     = Inr \<lparr>wall = 63895996800000000, utcoffset = Some 0\<rparr>
   \<and> (63895996800000000 :: int) = clock (at_noon text_due) div 86400000000 * 86400000000
   \<and> clock (at_noon text_due) mod 86400000000 = 43200000000
   \<and> format_relative_date sample_lib (at_noon text_due) (PStr ''2025-10-14T00:00:00Z'')
       = PStr ''Yesterday''"
proof -
  let ?date = "\<lparr>wall = 63895996800000000, utcoffset = Some 0\<rparr>"
  have p: "fromisoformat sample_lib (replace_Z ''2025-10-14T00:00:00Z'') = Inr ?date"
    by (simp add: sample_defs replace_Z_def)
  have o: "utcoffset ?date = Some 0"
    by simp
  have m: "wall ?date = clock (at_noon text_due) div 86400000000 * 86400000000"
    by (simp add: at_noon_def noon_def)
  have c: "clock (at_noon text_due) mod 86400000000 = 43200000000"
    by (simp add: at_noon_def noon_def)
  have n: "''2025-10-14T00:00:00Z'' \<noteq> []"
    by simp
  from due_midnight_of_today [OF p o m n] c p m show ?thesis
    by simp
qed

text \<open>
  A run at noon: with \<open>due_date\<close> at the start of 2025-10-14 and the clock at 12:00:00
  of that day, the run prints \<open>Yesterday\<close>, not \<open>Today\<close>.
\<close>

theorem today_seen_at_noon:
  "stdin (at_noon text_due) = Inr text_due
   \<and> json_loads sample_lib text_due = Inr (PDict [(''due_date'', PStr ''2025-10-14T00:00:00Z'')])
   \<and> fromisoformat sample_lib (replace_Z ''2025-10-14T00:00:00Z'')
       = Inr \<lparr>wall = 63895996800000000, utcoffset = Some 0\<rparr>
   \<and> (63895996800000000 :: int) = clock (at_noon text_due) div 86400000000 * 86400000000
   \<and> clock (at_noon text_due) = 63895996800000000 + 12 * 3600000000
   \<and> main sample_lib (at_noon text_due)
       = \<lparr>out = ''Yesterday'' @ [newline], err = '''', status = 0\<rparr>
   \<and> out (main sample_lib (at_noon text_due)) \<noteq> ''Today'' @ [newline]"
proof -
  let ?data = "PDict [(''due_date'', PStr ''2025-10-14T00:00:00Z'')]"
  have i: "stdin (at_noon text_due) = Inr text_due"
    by (simp add: at_noon_def)
  have j: "json_loads sample_lib text_due = Inr ?data"
    by (simp add: sample_defs)
  have d: "select_date ?data = Inr (PStr ''2025-10-14T00:00:00Z'')"
    by (simp add: select_date_dict dict_get_def)
  have p: "fromisoformat sample_lib (replace_Z ''2025-10-14T00:00:00Z'')
             = Inr \<lparr>wall = 63895996800000000, utcoffset = Some 0\<rparr>"
    by (simp add: sample_defs replace_Z_def)
  have c: "(63895996800000000 :: int) = clock (at_noon text_due) div 86400000000 * 86400000000"
    "clock (at_noon text_due) = 63895996800000000 + 12 * 3600000000"
    by (simp_all add: at_noon_def noon_def)
  have f: "format_relative_date sample_lib (at_noon text_due) (PStr ''2025-10-14T00:00:00Z'')
             = PStr ''Yesterday''"
    using format_label [OF day_difference_aware [OF p], of 0 "at_noon text_due"]
    by (simp add: at_noon_def noon_def)
  have o: "print_out sample_lib (PStr ''Yesterday'') = Inr (''Yesterday'' @ [newline])"
    by (simp add: print_out_str write_error_def sample_defs)
  have m: "main sample_lib (at_noon text_due)
             = \<lparr>out = ''Yesterday'' @ [newline], err = '''', status = 0\<rparr>"
    using main_prints [OF i j d] by (simp add: f o)
  have n: "out (main sample_lib (at_noon text_due)) \<noteq> ''Today'' @ [newline]"
    unfolding m by simp
  from i j p c m n show ?thesis
    by blast
qed

subsection \<open>The day difference\<close>

text \<open>
  C2. For a date string that parses to an aware datetime, the day difference is the floor of
  the signed duration from now to the date, counted in days of 86400000000 microseconds:
  a duration of one day gives 1, of 23 hours gives 0, and of minus 25 hours gives \<open>-2\<close>.
\<close>

theorem day_difference_is_floor:
  assumes "fromisoformat lib (replace_Z s) = Inr date" and "utcoffset date = Some off"
  shows "day_difference lib w (PStr s)
           = Inr \<lfloor>real_of_int (wall date - off - clock w) / 86400000000\<rfloor>
         \<and> (wall date - off - clock w = 86400000000
              \<longrightarrow> day_difference lib w (PStr s) = Inr 1)
         \<and> (wall date - off - clock w = 23 * 3600000000
              \<longrightarrow> day_difference lib w (PStr s) = Inr 0)
         \<and> (wall date - off - clock w = - 25 * 3600000000
              \<longrightarrow> day_difference lib w (PStr s) = Inr (- 2))"
proof -
  have fl: "\<lfloor>real_of_int a / 86400000000\<rfloor> = a div 86400000000" for a :: int
    using floor_divide_of_int_eq [of a 86400000000, where ?'a = real] by simp
  show ?thesis
    unfolding day_difference_aware [OF assms] fl by simp
qed

theorem day_difference_is_floor_witness:
  "fromisoformat sample_lib (replace_Z ''2025-10-15T02:00:00+02:00'')
     = Inr \<lparr>wall = 63896090400000000, utcoffset = Some 7200000000\<rparr>
   \<and> day_difference sample_lib \<lparr>clock = 63896173200000000, stdin = Inr []\<rparr>
         (PStr ''2025-10-15T02:00:00+02:00'') = Inr (- 2)
   \<and> (63896090400000000 - 7200000000 - 63896173200000000 :: int) = - 25 * 3600000000
   \<and> day_difference sample_lib \<lparr>clock = 63896173200000000, stdin = Inr []\<rparr>
         (PStr ''2025-10-15T02:00:00+02:00'')
       = Inr \<lfloor>real_of_int (63896090400000000 - 7200000000 - 63896173200000000)
                / 86400000000\<rfloor>"
proof -
  let ?date = "\<lparr>wall = 63896090400000000, utcoffset = Some 7200000000\<rparr>"
  let ?w = "\<lparr>clock = 63896173200000000, stdin = Inr []\<rparr>"
  have p: "fromisoformat sample_lib (replace_Z ''2025-10-15T02:00:00+02:00'') = Inr ?date"
    by (simp add: sample_defs replace_Z_def)
  have o: "utcoffset ?date = Some 7200000000"
    by simp
  have d: "wall ?date - 7200000000 - clock ?w = - 25 * 3600000000"
    by simp
  from day_difference_is_floor [OF p o, of ?w] d p show ?thesis
    by simp
qed

subsection \<open>The labels\<close>

text \<open>
  C3. For a non-empty date string that parses to an aware datetime, with \<open>d\<close> the day
  difference (the days, rounded down, from now to the date), the label is \<open>Today\<close> for
  \<open>d = 0\<close>, \<open>Tomorrow\<close> for \<open>d = 1\<close>, \<open>Yesterday\<close> for \<open>d = -1\<close>,
  \<open>in d days\<close> for \<open>d > 1\<close> and \<open>|d| days ago\<close> for \<open>d < -1\<close>; so
  \<open>in 5 days\<close> for 5 and \<open>5 days ago\<close> for \<open>-5\<close>.
\<close>

theorem label_of_day_difference:
  assumes "fromisoformat lib (replace_Z s) = Inr date"
    and "utcoffset date = Some off"
    and "s \<noteq> []"
    and "d = (wall date - off - clock w) div 86400000000"
  shows "(d = 0 \<longrightarrow> format_relative_date lib w (PStr s) = PStr ''Today'')
       \<and> (d = 1 \<longrightarrow> format_relative_date lib w (PStr s) = PStr ''Tomorrow'')
       \<and> (d = - 1 \<longrightarrow> format_relative_date lib w (PStr s) = PStr ''Yesterday'')
       \<and> (d > 1 \<longrightarrow> format_relative_date lib w (PStr s)
                       = PStr (''in '' @ str_int d @ '' days''))
       \<and> (d < - 1 \<longrightarrow> format_relative_date lib w (PStr s)
                       = PStr (str_int \<bar>d\<bar> @ '' days ago''))
       \<and> (d = 5 \<longrightarrow> format_relative_date lib w (PStr s) = PStr ''in 5 days'')
       \<and> (d = - 5 \<longrightarrow> format_relative_date lib w (PStr s) = PStr ''5 days ago'')"
proof -
  have "day_difference lib w (PStr s) = Inr d"
    using day_difference_aware [OF assms(1,2)] assms(4) by simp
  moreover have "truthy (PStr s)"
    using assms(3) by simp
  ultimately have "format_relative_date lib w (PStr s) =
      PStr (if d = 0 then ''Today''
            else if d = 1 then ''Tomorrow''
            else if d = - 1 then ''Yesterday''
            else if d > 0 then ''in '' @ str_int d @ '' days''
            else str_int \<bar>d\<bar> @ '' days ago'')"
    by (rule format_label)
  then show ?thesis
    using str_int_5 by auto
qed

theorem label_of_day_difference_witness:
  "fromisoformat sample_lib (replace_Z ''2025-10-19T09:00:00Z'')
     = Inr \<lparr>wall = 63896461200000000, utcoffset = Some 0\<rparr>
   \<and> (63896461200000000 - 0 - clock (at_noon text_far)) div 86400000000 = 4
   \<and> format_relative_date sample_lib (at_noon text_far) (PStr ''2025-10-19T09:00:00Z'')
       = PStr ''in 4 days''
   \<and> fromisoformat sample_lib (replace_Z ''2025-10-09T00:00:00Z'')
     = Inr \<lparr>wall = 63895564800000000, utcoffset = Some 0\<rparr>
   \<and> (63895564800000000 - 0 - clock (at_noon text_far)) div 86400000000 = - 6
   \<and> format_relative_date sample_lib (at_noon text_far) (PStr ''2025-10-09T00:00:00Z'')
       = PStr ''6 days ago''"
proof -
  let ?w = "at_noon text_far"
  let ?a = "\<lparr>wall = 63896461200000000, utcoffset = Some 0\<rparr>"
  let ?b = "\<lparr>wall = 63895564800000000, utcoffset = Some 0\<rparr>"
  have pa: "fromisoformat sample_lib (replace_Z ''2025-10-19T09:00:00Z'') = Inr ?a"
    by (simp add: sample_defs replace_Z_def)
  have pb: "fromisoformat sample_lib (replace_Z ''2025-10-09T00:00:00Z'') = Inr ?b"
    by (simp add: sample_defs replace_Z_def)
  have da: "(4::int) = (wall ?a - 0 - clock ?w) div 86400000000"
    by (simp add: at_noon_def noon_def)
  have db: "(- 6::int) = (wall ?b - 0 - clock ?w) div 86400000000"
    by (simp add: at_noon_def noon_def)
  have s4: "str_int 4 = ''4''" and s6: "str_int \<bar>- 6\<bar> = ''6''"
    by (simp_all add: str_int_def str_nat.simps)
  have la: "format_relative_date sample_lib ?w (PStr ''2025-10-19T09:00:00Z'') = PStr ''in 4 days''"
    using label_of_day_difference [OF pa _ _ da] s4 by simp
  have lb: "format_relative_date sample_lib ?w (PStr ''2025-10-09T00:00:00Z'') = PStr ''6 days ago''"
    using label_of_day_difference [OF pb _ _ db] s6 by simp
  from pa pb da db la lb show ?thesis
    by simp
qed

subsection \<open>Dates that give no label\<close>

text \<open>
  C4. When the selected date value is a string that \<open>fromisoformat\<close> rejects (after the
  replacement of \<open>Z\<close>), the formatter returns the string unchanged and the run prints it:
  when standard output can encode the string, the run writes the string and the line end,
  nothing to the error stream, and exits with status 0; when it cannot, \<open>print\<close> raises
  and the run takes the fatal path, with nothing on standard output, the line \<open>Error: \<close>
  and the text of the exception on the error stream, and status 1.
\<close>

theorem unparseable_date_is_echoed:
  assumes "stdin w = Inr text"
    and "json_loads lib text = Inr data"
    and "select_date data = Inr (PStr s)"
    and "fromisoformat lib (replace_Z s) = Inl e"
  shows "format_relative_date lib w (PStr s) = PStr s
       \<and> main lib w =
           (case write_error lib s of
              None \<Rightarrow> \<lparr>out = s @ [newline], err = '''', status = 0\<rparr>
            | Some x \<Rightarrow> \<lparr>out = '''', err = ''Error: '' @ exn_msg x @ [newline], status = 1\<rparr>)"
proof -
  have "isl (day_difference lib w (PStr s))"
    using day_difference_unparsed [OF assms(4)] by simp
  then have f: "format_relative_date lib w (PStr s) = PStr s"
    by (rule format_fallback)
  show ?thesis
    using main_prints [OF assms(1,2,3)] f
    by (simp add: print_out_str split: option.splits)
qed

theorem unparseable_date_is_echoed_witness:
  "stdin (at_noon text_bad_date) = Inr text_bad_date
   \<and> json_loads sample_lib text_bad_date = Inr (PDict [(''due_date'', PStr ''not-a-date'')])
   \<and> select_date (PDict [(''due_date'', PStr ''not-a-date'')]) = Inr (PStr ''not-a-date'')
   \<and> isl (fromisoformat sample_lib (replace_Z ''not-a-date''))
   \<and> write_error sample_lib ''not-a-date'' = None
   \<and> main sample_lib (at_noon text_bad_date)
       = \<lparr>out = ''not-a-date'' @ [newline], err = '''', status = 0\<rparr>"
proof -
  let ?data = "PDict [(''due_date'', PStr ''not-a-date'')]"
  let ?e = "ValueError (''Invalid isoformat string: '' @ [quote] @ ''not-a-date'' @ [quote])"
  have i: "stdin (at_noon text_bad_date) = Inr text_bad_date"
    by (simp add: at_noon_def)
  have j: "json_loads sample_lib text_bad_date = Inr ?data"
    by (simp add: sample_defs)
  have d: "select_date ?data = Inr (PStr ''not-a-date'')"
    by (simp add: select_date_dict dict_get_def)
  have p: "fromisoformat sample_lib (replace_Z ''not-a-date'') = Inl ?e"
    by (simp add: sample_defs replace_Z_def)
  have o: "write_error sample_lib ''not-a-date'' = None"
    by (simp add: write_error_def sample_defs)
  from unparseable_date_is_echoed [OF i j d p] o
  have m: "main sample_lib (at_noon text_bad_date)
           = \<lparr>out = ''not-a-date'' @ [newline], err = '''', status = 0\<rparr>"
    by simp
  from i j d p o m show ?thesis
    by simp
qed

text \<open>
  A string that standard output cannot encode is not echoed: the date value is a lone
  surrogate, which \<open>fromisoformat\<close> rejects and a UTF-8 standard output cannot write.
  The run ends with status 1 and nothing on standard output.
\<close>

theorem unparseable_date_not_printable:
  "stdin (at_noon text_surrogate) = Inr text_surrogate
   \<and> json_loads sample_lib text_surrogate = Inr (PDict [(''due_date'', PStr lone_surrogate)])
   \<and> select_date (PDict [(''due_date'', PStr lone_surrogate)]) = Inr (PStr lone_surrogate)
   \<and> isl (fromisoformat sample_lib (replace_Z lone_surrogate))
   \<and> main sample_lib (at_noon text_surrogate)
       = \<lparr>out = '''', err = ''Error: '' @ exn_msg (surrogate_error ''0'') @ [newline],
          status = 1\<rparr>
   \<and> main sample_lib (at_noon text_surrogate)
       \<noteq> \<lparr>out = lone_surrogate @ [newline], err = '''', status = 0\<rparr>"
proof -
  have i: "stdin (at_noon text_surrogate) = Inr text_surrogate"
    by (simp add: at_noon_def)
  have j: "json_loads sample_lib text_surrogate = Inr (PDict [(''due_date'', PStr lone_surrogate)])"
    by (simp add: sample_lib_def sample_json_loads_def text_due_def text_both_def text_far_def
        text_bad_date_def text_naive_def text_no_date_def text_array_def text_truncated_def
        text_start_only_def text_surrogate_def)
  have d: "select_date (PDict [(''due_date'', PStr lone_surrogate)]) = Inr (PStr lone_surrogate)"
    by (simp add: select_date_dict dict_get_def lone_surrogate_def)
  have r: "replace_Z lone_surrogate = lone_surrogate"
    by (simp add: replace_Z_def lone_surrogate_def)
  have q: "fromisoformat sample_lib (replace_Z lone_surrogate)
           = Inl (ValueError (''Invalid isoformat string: '' @ [quote] @ [backslash]
                              @ ''ud800'' @ [quote]))"
    unfolding r by (simp add: sample_lib_def sample_fromisoformat_def surrogate_time_def
        lone_surrogate_def)
  then have p: "isl (fromisoformat sample_lib (replace_Z lone_surrogate))"
    by simp
  have f: "format_relative_date sample_lib (at_noon text_surrogate) (PStr lone_surrogate)
           = PStr lone_surrogate"
    using day_difference_unparsed [OF q] by (intro format_fallback) simp
  have o: "write_error sample_lib lone_surrogate = Some (surrogate_error ''0'')"
    by (simp add: write_error_def sample_lib_def sample_stdout_error_def lone_surrogate_def)
  have m: "main sample_lib (at_noon text_surrogate)
       = \<lparr>out = '''', err = ''Error: '' @ exn_msg (surrogate_error ''0'') @ [newline],
          status = 1\<rparr>"
    using main_prints [OF i j d] by (simp add: f print_out_str o)
  from i j d p m show ?thesis
    by simp
qed

text \<open>
  C9. When the selected date value is a string that parses to a naive datetime (one with no
  UTC offset), subtracting the aware current instant raises, the formatter returns the string
  unchanged and the run prints it: when standard output can encode the string, the run
  writes the string and the line end and exits with status 0; when it cannot, \<open>print\<close>
  raises and the run takes the fatal path, with status 1.
\<close>

theorem naive_date_is_echoed:
  assumes "stdin w = Inr text"
    and "json_loads lib text = Inr data"
    and "select_date data = Inr (PStr s)"
    and "fromisoformat lib (replace_Z s) = Inr date"
    and "utcoffset date = None"
  shows "isl (dt_sub date (now_utc w))
       \<and> format_relative_date lib w (PStr s) = PStr s
       \<and> main lib w =
           (case write_error lib s of
              None \<Rightarrow> \<lparr>out = s @ [newline], err = '''', status = 0\<rparr>
            | Some x \<Rightarrow> \<lparr>out = '''', err = ''Error: '' @ exn_msg x @ [newline], status = 1\<rparr>)"
proof -
  have a: "isl (dt_sub date (now_utc w))"
    using assms(5) by (simp add: dt_sub_def now_utc_def)
  have f: "format_relative_date lib w (PStr s) = PStr s"
    using day_difference_naive [OF assms(4,5)] by (rule format_fallback)
  show ?thesis
    using main_prints [OF assms(1,2,3)] a f
    by (simp add: print_out_str split: option.splits)
qed

theorem naive_date_is_echoed_witness:
  "stdin (at_noon text_naive) = Inr text_naive
   \<and> json_loads sample_lib text_naive
       = Inr (PDict [(''created'', PStr ''2025-10-14T09:00:00''), (''due_date'', PNone)])
   \<and> select_date (PDict [(''created'', PStr ''2025-10-14T09:00:00''), (''due_date'', PNone)])
       = Inr (PStr ''2025-10-14T09:00:00'')
   \<and> fromisoformat sample_lib (replace_Z ''2025-10-14T09:00:00'')
       = Inr \<lparr>wall = 63896029200000000, utcoffset = None\<rparr>
   \<and> write_error sample_lib ''2025-10-14T09:00:00'' = None
   \<and> main sample_lib (at_noon text_naive)
       = \<lparr>out = ''2025-10-14T09:00:00'' @ [newline], err = '''', status = 0\<rparr>"
proof -
  let ?data = "PDict [(''created'', PStr ''2025-10-14T09:00:00''), (''due_date'', PNone)]"
  let ?date = "\<lparr>wall = 63896029200000000, utcoffset = None\<rparr>"
  have i: "stdin (at_noon text_naive) = Inr text_naive"
    by (simp add: at_noon_def)
  have j: "json_loads sample_lib text_naive = Inr ?data"
    by (simp add: sample_defs)
  have d: "select_date ?data = Inr (PStr ''2025-10-14T09:00:00'')"
    by (simp add: select_date_dict dict_get_def)
  have p: "fromisoformat sample_lib (replace_Z ''2025-10-14T09:00:00'') = Inr ?date"
    by (simp add: sample_defs replace_Z_def)
  have n: "utcoffset ?date = None"
    by simp
  have o: "write_error sample_lib ''2025-10-14T09:00:00'' = None"
    by (simp add: write_error_def sample_defs)
  from naive_date_is_echoed [OF i j d p n] o
  have m: "main sample_lib (at_noon text_naive)
           = \<lparr>out = ''2025-10-14T09:00:00'' @ [newline], err = '''', status = 0\<rparr>"
    by simp
  from i j d p o m show ?thesis
    by simp
qed

text \<open>
  A naive timestamp that standard output cannot encode is not echoed: the date and the
  time are separated by a lone surrogate, \<open>fromisoformat\<close> takes any character there
  and gives a naive datetime, and a UTF-8 standard output cannot write the string. The run
  ends with status 1 and nothing on standard output.
\<close>

theorem naive_date_not_printable:
  "stdin (at_noon text_surrogate_time) = Inr text_surrogate_time
   \<and> json_loads sample_lib text_surrogate_time = Inr (PDict [(''due_date'', PStr surrogate_time)])
   \<and> select_date (PDict [(''due_date'', PStr surrogate_time)]) = Inr (PStr surrogate_time)
   \<and> fromisoformat sample_lib (replace_Z surrogate_time)
       = Inr \<lparr>wall = 63896029200000000, utcoffset = None\<rparr>
   \<and> main sample_lib (at_noon text_surrogate_time)
       = \<lparr>out = '''', err = ''Error: '' @ exn_msg (surrogate_error ''10'') @ [newline],
          status = 1\<rparr>
   \<and> main sample_lib (at_noon text_surrogate_time)
       \<noteq> \<lparr>out = surrogate_time @ [newline], err = '''', status = 0\<rparr>"
proof -
  let ?date = "\<lparr>wall = 63896029200000000, utcoffset = None\<rparr>"
  have i: "stdin (at_noon text_surrogate_time) = Inr text_surrogate_time"
    by (simp add: at_noon_def)
  have j: "json_loads sample_lib text_surrogate_time
           = Inr (PDict [(''due_date'', PStr surrogate_time)])"
    by (simp add: sample_lib_def sample_json_loads_def text_due_def text_both_def text_far_def
        text_bad_date_def text_naive_def text_no_date_def text_array_def text_truncated_def
        text_start_only_def text_surrogate_def text_surrogate_time_def)
  have d: "select_date (PDict [(''due_date'', PStr surrogate_time)]) = Inr (PStr surrogate_time)"
    by (simp add: select_date_dict dict_get_def surrogate_time_def)
  have r: "replace_Z surrogate_time = surrogate_time"
    by (simp add: replace_Z_def surrogate_time_def lone_surrogate_def)
  have p: "fromisoformat sample_lib (replace_Z surrogate_time) = Inr ?date"
    unfolding r by (simp add: sample_lib_def sample_fromisoformat_def)
  have f: "format_relative_date sample_lib (at_noon text_surrogate_time) (PStr surrogate_time)
           = PStr surrogate_time"
    using day_difference_naive [OF p] by (intro format_fallback) simp
  have o: "write_error sample_lib surrogate_time = Some (surrogate_error ''10'')"
    by (simp add: write_error_def sample_lib_def sample_stdout_error_def surrogate_time_def
        lone_surrogate_def)
  have m: "main sample_lib (at_noon text_surrogate_time)
       = \<lparr>out = '''', err = ''Error: '' @ exn_msg (surrogate_error ''10'') @ [newline],
          status = 1\<rparr>"
    using main_prints [OF i j d] by (simp add: f print_out_str o)
  from i j d p m show ?thesis
    by simp
qed

subsection \<open>Fatal errors\<close>

text \<open>
  C5. When standard input cannot be read, or its text is rejected by \<open>json.loads\<close>, the
  run writes nothing to standard output, writes \<open>Error: \<close> followed by the text of the
  exception and the line end to the error stream, and exits with status 1. That is one
  line when the text of the exception has no line end of its own.
\<close>

theorem unreadable_input_is_fatal:
  assumes "stdin w = Inl e \<or> (\<exists>text. stdin w = Inr text \<and> json_loads lib text = Inl e)"
  shows "main lib w = \<lparr>out = '''', err = ''Error: '' @ exn_msg e @ [newline], status = 1\<rparr>
       \<and> (newline \<notin> set (exn_msg e) \<longrightarrow> count_list (err (main lib w)) newline = 1)"
proof -
  have "json_load lib (stdin w) = Inl e"
    using assms by (auto simp: json_load_def)
  then have "try_main lib w = Inl e"
    by (simp add: try_main_def)
  then have m: "main lib w = \<lparr>out = '''', err = ''Error: '' @ exn_msg e @ [newline], status = 1\<rparr>"
    by (rule main_fails)
  have "count_list (''Error: '' @ exn_msg e @ [newline]) newline = 1"
    if "newline \<notin> set (exn_msg e)"
    using that by (simp add: newline_def count_list_0_iff)
  with m show ?thesis
    by simp
qed

theorem unreadable_input_is_fatal_witness:
  "stdin (at_noon text_truncated) = Inr text_truncated
   \<and> json_loads sample_lib text_truncated
       = Inl (ValueError ''Expecting value: line 1 column 14 (char 13)'')
   \<and> main sample_lib (at_noon text_truncated)
       = \<lparr>out = '''', err = ''Error: Expecting value: line 1 column 14 (char 13)'' @ [newline],
          status = 1\<rparr>
   \<and> count_list (err (main sample_lib (at_noon text_truncated))) newline = 1"
proof -
  let ?e = "ValueError ''Expecting value: line 1 column 14 (char 13)''"
  have i: "stdin (at_noon text_truncated) = Inr text_truncated"
    by (simp add: at_noon_def)
  have j: "json_loads sample_lib text_truncated = Inl ?e"
    by (simp add: sample_defs)
  have h: "stdin (at_noon text_truncated) = Inl ?e
           \<or> (\<exists>text. stdin (at_noon text_truncated) = Inr text
                     \<and> json_loads sample_lib text = Inl ?e)"
    using i j by simp
  have n: "newline \<notin> set (exn_msg ?e)"
    by (simp add: newline_def)
  note r = unreadable_input_is_fatal [OF h]
  from r have m: "main sample_lib (at_noon text_truncated)
      = \<lparr>out = '''', err = ''Error: Expecting value: line 1 column 14 (char 13)'' @ [newline],
         status = 1\<rparr>"
    by simp
  from r n have c: "count_list (err (main sample_lib (at_noon text_truncated))) newline = 1"
    by blast
  from i j m c show ?thesis
    by blast
qed

text \<open>
  C10. When the input is valid JSON but not an object, the lookup of \<open>get\<close> raises
  AttributeError: the run writes nothing to standard output, writes the line
  \<open>Error: '<type>' object has no attribute 'get'\<close> to the error stream and exits with
  status 1.
\<close>

theorem non_object_is_fatal:
  assumes "stdin w = Inr text"
    and "json_loads lib text = Inr data"
    and "\<nexists>kvs. data = PDict kvs"
  shows "main lib w =
           \<lparr>out = '''',
            err = ''Error: '' @ [quote] @ type_name data @ [quote]
                  @ '' object has no attribute '' @ [quote] @ ''get'' @ [quote] @ [newline],
            status = 1\<rparr>"
proof -
  have "py_get data ''due_date'' = Inl (no_attribute data ''get'')"
    using assms(3) by (cases data) (simp_all add: py_get_def)
  then have "select_date data = Inl (no_attribute data ''get'')"
    by (simp add: select_date_def)
  then have "try_main lib w = Inl (no_attribute data ''get'')"
    using assms(1,2) by (simp add: try_main_def json_load_def)
  from main_fails [OF this] show ?thesis
    by (simp add: no_attribute_def)
qed

theorem non_object_is_fatal_witness:
  "stdin (at_noon text_array) = Inr text_array
   \<and> json_loads sample_lib text_array = Inr (PList [PStr ''2025-10-14T00:00:00Z''])
   \<and> main sample_lib (at_noon text_array) =
        \<lparr>out = '''',
         err = ''Error: '' @ [quote] @ ''list'' @ [quote] @ '' object has no attribute ''
               @ [quote] @ ''get'' @ [quote] @ [newline],
         status = 1\<rparr>"
proof -
  let ?data = "PList [PStr ''2025-10-14T00:00:00Z'']"
  have i: "stdin (at_noon text_array) = Inr text_array"
    by (simp add: at_noon_def)
  have j: "json_loads sample_lib text_array = Inr ?data"
    by (simp add: sample_defs)
  have k: "\<nexists>kvs. ?data = PDict kvs"
    by simp
  from non_object_is_fatal [OF i j k] i j show ?thesis
    by simp
qed

subsection \<open>The choice of the date field\<close>

text \<open>
  C6. For an input object, the value handed to the formatter is the first of the values of
  \<open>due_date\<close>, \<open>start_date\<close> and \<open>created\<close>, in this order, that is not empty, where
  empty means false in Python's truth-value test (a missing key reads as None; None, the
  empty string, an empty array or object, false and zero are empty); when all three are
  empty it is the value of \<open>created\<close>. What the run prints is the formatter's result for
  that value. In particular, when \<open>due_date\<close> is not empty it is the value chosen,
  whatever \<open>start_date\<close> and \<open>created\<close> hold.
\<close>

theorem first_nonempty_field_is_selected:
  assumes "stdin w = Inr text"
    and "json_loads lib text = Inr (PDict kvs)"
    and "chosen = (case find truthy [dict_get kvs ''due_date'', dict_get kvs ''start_date'',
                                     dict_get kvs ''created''] of
                     Some v \<Rightarrow> v
                   | None \<Rightarrow> dict_get kvs ''created'')"
  shows "select_date (PDict kvs) = Inr chosen
       \<and> main lib w =
           (case print_out lib (format_relative_date lib w chosen) of
              Inr printed \<Rightarrow> \<lparr>out = printed, err = '''', status = 0\<rparr>
            | Inl e \<Rightarrow> \<lparr>out = '''', err = ''Error: '' @ exn_msg e @ [newline], status = 1\<rparr>)
       \<and> (truthy (dict_get kvs ''due_date'') \<longrightarrow> chosen = dict_get kvs ''due_date'')"
proof -
  have sel: "select_date (PDict kvs) = Inr chosen"
    using assms(3) by (simp add: select_date_dict)
  have due: "chosen = dict_get kvs ''due_date''" if "truthy (dict_get kvs ''due_date'')"
    using that assms(3) by simp
  from sel main_prints [OF assms(1,2) sel] due show ?thesis
    by blast
qed

theorem first_nonempty_field_is_selected_witness:
  "stdin (at_noon text_both) = Inr text_both
   \<and> json_loads sample_lib text_both
       = Inr (PDict [(''start_date'', PStr ''2025-10-09T00:00:00Z''),
                     (''due_date'', PStr ''2025-10-15T02:00:00+02:00'')])
   \<and> select_date (PDict [(''start_date'', PStr ''2025-10-09T00:00:00Z''),
                          (''due_date'', PStr ''2025-10-15T02:00:00+02:00'')])
       = Inr (PStr ''2025-10-15T02:00:00+02:00'')
   \<and> main sample_lib (at_noon text_both) = \<lparr>out = ''Today'' @ [newline], err = '''', status = 0\<rparr>
   \<and> stdin (at_noon text_start_only) = Inr text_start_only
   \<and> json_loads sample_lib text_start_only
       = Inr (PDict [(''due_date'', PStr ''''), (''start_date'', PStr ''2025-10-09T00:00:00Z'')])
   \<and> select_date (PDict [(''due_date'', PStr ''''),
                          (''start_date'', PStr ''2025-10-09T00:00:00Z'')])
       = Inr (PStr ''2025-10-09T00:00:00Z'')
   \<and> main sample_lib (at_noon text_start_only)
       = \<lparr>out = ''6 days ago'' @ [newline], err = '''', status = 0\<rparr>"
proof -
  let ?both = "[(''start_date'', PStr ''2025-10-09T00:00:00Z''),
                (''due_date'', PStr ''2025-10-15T02:00:00+02:00'')]"
  let ?start = "[(''due_date'', PStr ''''), (''start_date'', PStr ''2025-10-09T00:00:00Z'')]"
  have i: "stdin (at_noon text_both) = Inr text_both"
    and i': "stdin (at_noon text_start_only) = Inr text_start_only"
    by (simp_all add: at_noon_def)
  have j: "json_loads sample_lib text_both = Inr (PDict ?both)"
    by (simp add: sample_defs)
  have j': "json_loads sample_lib text_start_only = Inr (PDict ?start)"
    by (simp add: sample_defs)
  have c: "PStr ''2025-10-15T02:00:00+02:00'' =
             (case find truthy [dict_get ?both ''due_date'', dict_get ?both ''start_date'',
                                dict_get ?both ''created''] of
                Some v \<Rightarrow> v
              | None \<Rightarrow> dict_get ?both ''created'')"
    by (simp add: dict_get_def)
  have c': "PStr ''2025-10-09T00:00:00Z'' =
             (case find truthy [dict_get ?start ''due_date'', dict_get ?start ''start_date'',
                                dict_get ?start ''created''] of
                Some v \<Rightarrow> v
              | None \<Rightarrow> dict_get ?start ''created'')"
    by (simp add: dict_get_def)
  have pa: "fromisoformat sample_lib (replace_Z ''2025-10-15T02:00:00+02:00'')
              = Inr \<lparr>wall = 63896090400000000, utcoffset = Some 7200000000\<rparr>"
    by (simp add: sample_defs replace_Z_def)
  have pb: "fromisoformat sample_lib (replace_Z ''2025-10-09T00:00:00Z'')
              = Inr \<lparr>wall = 63895564800000000, utcoffset = Some 0\<rparr>"
    by (simp add: sample_defs replace_Z_def)
  have fa: "format_relative_date sample_lib (at_noon text_both)
              (PStr ''2025-10-15T02:00:00+02:00'') = PStr ''Today''"
    using format_label [OF day_difference_aware [OF pa], of "7200000000" "at_noon text_both"]
    by (simp add: at_noon_def noon_def)
  have fb: "format_relative_date sample_lib (at_noon text_start_only)
              (PStr ''2025-10-09T00:00:00Z'') = PStr ''6 days ago''"
    using format_label [OF day_difference_aware [OF pb], of 0 "at_noon text_start_only"]
    by (simp add: at_noon_def noon_def str_int_def str_nat.simps)
  have oa: "print_out sample_lib (PStr ''Today'') = Inr (''Today'' @ [newline])"
    by (simp add: print_out_str write_error_def sample_defs)
  have ob: "print_out sample_lib (PStr ''6 days ago'') = Inr (''6 days ago'' @ [newline])"
    by (simp add: print_out_str write_error_def sample_defs)
  note r = first_nonempty_field_is_selected [OF i j c]
  note r' = first_nonempty_field_is_selected [OF i' j' c']
  from r have s: "select_date (PDict ?both) = Inr (PStr ''2025-10-15T02:00:00+02:00'')"
    by blast
  from r' have s': "select_date (PDict ?start) = Inr (PStr ''2025-10-09T00:00:00Z'')"
    by blast
  from r have m: "main sample_lib (at_noon text_both)
                  = \<lparr>out = ''Today'' @ [newline], err = '''', status = 0\<rparr>"
    by (simp add: fa oa)
  from r' have m': "main sample_lib (at_noon text_start_only)
                   = \<lparr>out = ''6 days ago'' @ [newline], err = '''', status = 0\<rparr>"
    by (simp add: fb ob)
  from i j s m i' j' s' m' show ?thesis
    by blast
qed

text \<open>
  C7. For an input object in which each of \<open>due_date\<close>, \<open>start_date\<close> and \<open>created\<close>
  is missing, null or empty (false in Python's truth-value test), the run prints one empty
  line, writes nothing to the error stream and exits with status 0.
\<close>

theorem no_date_prints_empty_line:
  assumes "stdin w = Inr text"
    and "json_loads lib text = Inr (PDict kvs)"
    and "\<forall>k \<in> {''due_date'', ''start_date'', ''created''}. \<not> truthy (dict_get kvs k)"
  shows "main lib w = \<lparr>out = [newline], err = '''', status = 0\<rparr>"
proof -
  have sel: "select_date (PDict kvs) = Inr (dict_get kvs ''created'')"
    using assms(3) by (simp add: select_date_dict)
  have "format_relative_date lib w (dict_get kvs ''created'') = PStr ''''"
    using assms(3) by (simp add: format_relative_date_def)
  then show ?thesis
    using main_prints [OF assms(1,2) sel] by (simp add: print_out_str write_error_def)
qed

theorem no_date_prints_empty_line_witness:
  "stdin (at_noon text_no_date) = Inr text_no_date
   \<and> json_loads sample_lib text_no_date
       = Inr (PDict [(''summary'', PStr ''water the plants''), (''due_date'', PStr ''''),
                     (''start_date'', PNone)])
   \<and> dict_get [(''summary'', PStr ''water the plants''), (''due_date'', PStr ''''),
                (''start_date'', PNone)] ''due_date'' = PStr ''''
   \<and> dict_get [(''summary'', PStr ''water the plants''), (''due_date'', PStr ''''),
                (''start_date'', PNone)] ''start_date'' = PNone
   \<and> dict_get [(''summary'', PStr ''water the plants''), (''due_date'', PStr ''''),
                (''start_date'', PNone)] ''created'' = PNone
   \<and> main sample_lib (at_noon text_no_date) = \<lparr>out = [newline], err = '''', status = 0\<rparr>"
proof -
  let ?kvs = "[(''summary'', PStr ''water the plants''), (''due_date'', PStr ''''),
               (''start_date'', PNone)]"
  have i: "stdin (at_noon text_no_date) = Inr text_no_date"
    by (simp add: at_noon_def)
  have j: "json_loads sample_lib text_no_date = Inr (PDict ?kvs)"
    by (simp add: sample_defs)
  have g: "dict_get ?kvs ''due_date'' = PStr ''''" "dict_get ?kvs ''start_date'' = PNone"
    "dict_get ?kvs ''created'' = PNone"
    by (simp_all add: dict_get_def)
  have e: "\<forall>k \<in> {''due_date'', ''start_date'', ''created''}. \<not> truthy (dict_get ?kvs k)"
    by (simp add: g)
  from no_date_prints_empty_line [OF i j e] i j g show ?thesis
    by blast
qed

end
